theory Spec2Isabelle
  imports Complex_Main
begin

section \<open>Python strings\<close>

text \<open>
  A Python \<open>str\<close> is a sequence of Unicode code points, and the status tables of
  \<open>core/sla.py\<close> hold Cyrillic labels, so a string is modelled as the list of its
  code points. \<open>U\<close> embeds an ASCII literal.
\<close>

type_synonym ustr = "nat list"

definition U :: "string \<Rightarrow> ustr" where
  "U s = map of_char s"

text \<open>
  \<open>str.isspace\<close> on one code point: the code points that \<open>str.strip()\<close> removes
  (U+0009..000D, U+001C..0020, U+0085, U+00A0, U+1680, U+2000..200A, U+2028, U+2029,
  U+202F, U+205F, U+3000).
\<close>

definition is_space :: "nat \<Rightarrow> bool" where
  "is_space c =
     ((9 \<le> c \<and> c \<le> 13) \<or> (28 \<le> c \<and> c \<le> 32) \<or> c = 133 \<or> c = 160 \<or> c = 5760 \<or>
      (8192 \<le> c \<and> c \<le> 8202) \<or> c = 8232 \<or> c = 8233 \<or> c = 8239 \<or> c = 8287 \<or>
      c = 12288)"

definition strip :: "ustr \<Rightarrow> ustr" where
  "strip s = rev (dropWhile is_space (rev (dropWhile is_space s)))"

text \<open>
  \<open>str.lower\<close> on one code point, for Basic Latin (A..Z) and the Cyrillic capitals
  U+0400..U+042F, which is every cased letter of the tables and status codes of this
  program. Other code points are left as they are; Python lowers further scripts too.
\<close>

definition lower_cp :: "nat \<Rightarrow> nat" where
  "lower_cp c =
     (if 65 \<le> c \<and> c \<le> 90 then c + 32
      else if 1040 \<le> c \<and> c \<le> 1071 then c + 32
      else if 1024 \<le> c \<and> c \<le> 1039 then c + 80
      else c)"

definition lower :: "ustr \<Rightarrow> ustr" where
  "lower s = map lower_cp s"

text \<open>\<open>str.replace(" ", "_")\<close>: both arguments are one code point long.\<close>

definition replace_space_underscore :: "ustr \<Rightarrow> ustr" where
  "replace_space_underscore s = map (\<lambda>c. if c = 32 then 95 else c) s"

text \<open>
  The \<open>re.sub\<close> call of \<open>status_text_to_code\<close> deletes every code point outside
  a character class (a..z, the Cyrillic small letters U+0430..U+044F, U+0451, space,
  0..9, underscore), matched with IGNORECASE. With that flag the class holds space, 0..9,
  A..Z, underscore, a..z, U+0130, U+0131, U+017F, U+0401, U+0410..U+044F, U+0451,
  U+1C80..U+1C86 and U+212A.
\<close>

definition in_status_class :: "nat \<Rightarrow> bool" where
  "in_status_class c =
     (c = 32 \<or> (48 \<le> c \<and> c \<le> 57) \<or> (65 \<le> c \<and> c \<le> 90) \<or> c = 95 \<or>
      (97 \<le> c \<and> c \<le> 122) \<or> c = 304 \<or> c = 305 \<or> c = 383 \<or> c = 1025 \<or>
      (1040 \<le> c \<and> c \<le> 1103) \<or> c = 1105 \<or> (7296 \<le> c \<and> c \<le> 7302) \<or> c = 8490)"

definition re_sub_status :: "ustr \<Rightarrow> ustr" where
  "re_sub_status t = filter in_status_class t"


section \<open>Status model (core/sla.py)\<close>

definition STATUS_NEW :: ustr where "STATUS_NEW = U ''new''"
definition STATUS_ASSIGNED :: ustr where "STATUS_ASSIGNED = U ''assigned''"
definition STATUS_RESPONDED :: ustr where "STATUS_RESPONDED = U ''responded''"
definition STATUS_RESOLVED :: ustr where "STATUS_RESOLVED = U ''resolved''"
definition STATUS_WAITING_CUSTOMER :: ustr where "STATUS_WAITING_CUSTOMER = U ''waiting_customer''"
definition STATUS_TABLE :: ustr where "STATUS_TABLE = U ''table''"
definition STATUS_OTIP :: ustr where "STATUS_OTIP = U ''otip''"
definition STATUS_OVERDUE :: ustr where "STATUS_OVERDUE = U ''overdue''"
definition STATUS_NOT_INTERESTING :: ustr where "STATUS_NOT_INTERESTING = U ''not_interesting''"
definition STATUS_IN_TABLE :: ustr where "STATUS_IN_TABLE = U ''in_table''"

definition STATUS_ALIASES :: "(ustr \<times> ustr) list" where
  "STATUS_ALIASES = [(STATUS_IN_TABLE, STATUS_TABLE)]"

text \<open>
  The display labels, as code points. In Latin letters they read: Novoe, V rabote,
  Dan otvet, Zakryto, Zhdem klienta, Trebuet dannyh/tablica, OTIP, Prosrochka SLA,
  Neinteresno/spam.
\<close>

definition STATUS_MODEL :: "(ustr \<times> ustr) list" where
  "STATUS_MODEL =
   [(STATUS_NEW, [1053, 1086, 1074, 1086, 1077]),
    (STATUS_ASSIGNED, [1042, 32, 1088, 1072, 1073, 1086, 1090, 1077]),
    (STATUS_RESPONDED, [1044, 1072, 1085, 32, 1086, 1090, 1074, 1077, 1090]),
    (STATUS_RESOLVED, [1047, 1072, 1082, 1088, 1099, 1090, 1086]),
    (STATUS_WAITING_CUSTOMER,
       [1046, 1076, 1077, 1084, 32, 1082, 1083, 1080, 1077, 1085, 1090, 1072]),
    (STATUS_TABLE,
       [1058, 1088, 1077, 1073, 1091, 1077, 1090, 32, 1076, 1072, 1085, 1085, 1099, 1093,
        47, 1090, 1072, 1073, 1083, 1080, 1094, 1072]),
    (STATUS_OTIP, U ''OTIP''),
    (STATUS_OVERDUE, [1055, 1088, 1086, 1089, 1088, 1086, 1095, 1082, 1072, 32, 83, 76, 65]),
    (STATUS_NOT_INTERESTING,
       [1053, 1077, 1080, 1085, 1090, 1077, 1088, 1077, 1089, 1085, 1086, 47, 1089, 1087,
        1072, 1084])]"

text \<open>
  \<open>STATUS_LABELS_RU\<close> is the dictionary built from \<open>STATUS_MODEL\<close>; its codes are
  pairwise distinct, so looking up the first pair of a code is the dictionary's value.
\<close>

definition STATUS_LABELS_RU :: "ustr \<rightharpoonup> ustr" where
  "STATUS_LABELS_RU = map_of STATUS_MODEL"

text \<open>
  \<open>STATUS_TEXT_MAP\<close>, in the order of the source. No key occurs twice. The Cyrillic
  keys read, in order: novoe, vhod, vhodyashchee, tablica, trebuet tablicy, trebuet
  dannyh, trebuet dannyh/tablica, naznacheno, v rabote, rabota, pereslano, otvet,
  dan otvet, ok, zakryto, zakryt', neinteresno, neinteresno/spam, ne nash, spam,
  prosrochka, prosrochka sla, nuzhno vremya, zhdyom klienta, zhdem klienta, ozhidaem
  klienta, zhdyom, zhdem, zhdyom otvet, zhdem otvet, otip.
\<close>

definition STATUS_TEXT_MAP :: "(ustr \<times> ustr) list" where
  "STATUS_TEXT_MAP =
   [([1085, 1086, 1074, 1086, 1077], STATUS_NEW),
    (U ''new'', STATUS_NEW),
    (U ''vhod'', STATUS_NEW),
    ([1074, 1093, 1086, 1076], STATUS_NEW),
    ([1074, 1093, 1086, 1076, 1103, 1097, 1077, 1077], STATUS_NEW),
    (U ''in_table'', STATUS_TABLE),
    (U ''table'', STATUS_TABLE),
    ([1090, 1072, 1073, 1083, 1080, 1094, 1072], STATUS_TABLE),
    ([1090, 1088, 1077, 1073, 1091, 1077, 1090, 32, 1090, 1072, 1073, 1083, 1080, 1094, 1099],
       STATUS_TABLE),
    ([1090, 1088, 1077, 1073, 1091, 1077, 1090, 32, 1076, 1072, 1085, 1085, 1099, 1093],
       STATUS_TABLE),
    ([1090, 1088, 1077, 1073, 1091, 1077, 1090, 32, 1076, 1072, 1085, 1085, 1099, 1093, 47,
      1090, 1072, 1073, 1083, 1080, 1094, 1072], STATUS_TABLE),
    ([1085, 1072, 1079, 1085, 1072, 1095, 1077, 1085, 1086], STATUS_ASSIGNED),
    ([1074, 32, 1088, 1072, 1073, 1086, 1090, 1077], STATUS_ASSIGNED),
    ([1088, 1072, 1073, 1086, 1090, 1072], STATUS_ASSIGNED),
    ([1087, 1077, 1088, 1077, 1089, 1083, 1072, 1085, 1086], STATUS_ASSIGNED),
    (U ''forwarded'', STATUS_ASSIGNED),
    (U ''forward'', STATUS_ASSIGNED),
    (U ''assigned'', STATUS_ASSIGNED),
    (U ''naznacheno'', STATUS_ASSIGNED),
    ([1086, 1090, 1074, 1077, 1090], STATUS_RESPONDED),
    ([1076, 1072, 1085, 32, 1086, 1090, 1074, 1077, 1090], STATUS_RESPONDED),
    (U ''responded'', STATUS_RESPONDED),
    (U ''ok'', STATUS_RESPONDED),
    ([1086, 1082], STATUS_RESPONDED),
    ([1079, 1072, 1082, 1088, 1099, 1090, 1086], STATUS_RESOLVED),
    ([1079, 1072, 1082, 1088, 1099, 1090, 1100], STATUS_RESOLVED),
    (U ''resolved'', STATUS_RESOLVED),
    (U ''done'', STATUS_RESOLVED),
    (U ''close'', STATUS_RESOLVED),
    (U ''closed'', STATUS_RESOLVED),
    ([1085, 1077, 1080, 1085, 1090, 1077, 1088, 1077, 1089, 1085, 1086], STATUS_NOT_INTERESTING),
    ([1085, 1077, 1080, 1085, 1090, 1077, 1088, 1077, 1089, 1085, 1086, 47, 1089, 1087, 1072,
      1084], STATUS_NOT_INTERESTING),
    ([1085, 1077, 32, 1085, 1072, 1096], STATUS_NOT_INTERESTING),
    ([1089, 1087, 1072, 1084], STATUS_NOT_INTERESTING),
    (U ''not_interesting'', STATUS_NOT_INTERESTING),
    ([1087, 1088, 1086, 1089, 1088, 1086, 1095, 1082, 1072], STATUS_OVERDUE),
    ([1087, 1088, 1086, 1089, 1088, 1086, 1095, 1082, 1072, 32, 115, 108, 97], STATUS_OVERDUE),
    (U ''overdue'', STATUS_OVERDUE),
    (U ''waiting_customer'', STATUS_WAITING_CUSTOMER),
    (U ''waiting'', STATUS_WAITING_CUSTOMER),
    (U ''waiting customer'', STATUS_WAITING_CUSTOMER),
    (U ''need more time'', STATUS_WAITING_CUSTOMER),
    (U ''more time'', STATUS_WAITING_CUSTOMER),
    ([1085, 1091, 1078, 1085, 1086, 32, 1074, 1088, 1077, 1084, 1103], STATUS_WAITING_CUSTOMER),
    ([1078, 1076, 1105, 1084, 32, 1082, 1083, 1080, 1077, 1085, 1090, 1072],
       STATUS_WAITING_CUSTOMER),
    ([1078, 1076, 1077, 1084, 32, 1082, 1083, 1080, 1077, 1085, 1090, 1072],
       STATUS_WAITING_CUSTOMER),
    ([1086, 1078, 1080, 1076, 1072, 1077, 1084, 32, 1082, 1083, 1080, 1077, 1085, 1090, 1072],
       STATUS_WAITING_CUSTOMER),
    ([1078, 1076, 1105, 1084], STATUS_WAITING_CUSTOMER),
    ([1078, 1076, 1077, 1084], STATUS_WAITING_CUSTOMER),
    ([1078, 1076, 1105, 1084, 32, 1086, 1090, 1074, 1077, 1090], STATUS_WAITING_CUSTOMER),
    ([1078, 1076, 1077, 1084, 32, 1086, 1090, 1074, 1077, 1090], STATUS_WAITING_CUSTOMER),
    (U ''otip'', STATUS_OTIP),
    ([1086, 1090, 1080, 1087], STATUS_OTIP)]"

text \<open>
  \<open>normalize_status_code\<close>: \<open>None\<close> stays \<open>None\<close>; otherwise the code is stripped and
  lowered and an alias is replaced by its target. Both branches of the source's default
  (\<open>code_l if code_l in STATUS_LABELS_RU else code_l\<close>) are \<open>code_l\<close>.
\<close>

definition normalize_status_code :: "ustr option \<Rightarrow> ustr option" where
  "normalize_status_code code =
     (case code of
        None \<Rightarrow> None
      | Some c \<Rightarrow>
          (let code_l = lower (strip c)
           in Some (case map_of STATUS_ALIASES code_l of
                      Some a \<Rightarrow> a
                    | None \<Rightarrow> (if code_l \<in> dom STATUS_LABELS_RU then code_l else code_l))))"

definition status_code_to_label :: "ustr \<Rightarrow> ustr" where
  "status_code_to_label code =
     (case normalize_status_code (Some code) of
        None \<Rightarrow> code
      | Some canonical \<Rightarrow>
          (case STATUS_LABELS_RU canonical of Some label \<Rightarrow> label | None \<Rightarrow> code))"

text \<open>
  \<open>status_text_to_code\<close>. Every value of \<open>STATUS_TEXT_MAP\<close> is a non-empty string, so
  the truth tests \<open>if code\<close> and \<open>a or b\<close> of the source test for a hit.
\<close>

definition status_text_to_code :: "ustr \<Rightarrow> ustr option" where
  "status_text_to_code text =
     (if text = [] then None
      else
        (let t = lower (strip text)
         in case map_of STATUS_TEXT_MAP t of
              Some code \<Rightarrow> Some code
            | None \<Rightarrow>
                if t \<in> dom STATUS_LABELS_RU then Some t
                else
                  (case map_of STATUS_ALIASES t of
                     Some a \<Rightarrow> Some a
                   | None \<Rightarrow>
                       (let t_clean = strip (re_sub_status t)
                        in case map_of STATUS_TEXT_MAP t_clean of
                             Some code \<Rightarrow> Some code
                           | None \<Rightarrow>
                               map_of STATUS_TEXT_MAP (replace_space_underscore t_clean)))))"

definition derive_base_status :: "bool \<Rightarrow> bool \<Rightarrow> bool \<Rightarrow> bool \<Rightarrow> ustr" where
  "derive_base_status has_forward has_reply requires_table is_uninteresting =
     (if is_uninteresting then STATUS_NOT_INTERESTING
      else if requires_table then STATUS_TABLE
      else if has_reply then STATUS_RESPONDED
      else if has_forward then STATUS_ASSIGNED
      else STATUS_ASSIGNED)"


section \<open>Properties of the status model\<close>

lemmas status_defs =
  STATUS_NEW_def STATUS_ASSIGNED_def STATUS_RESPONDED_def STATUS_RESOLVED_def
  STATUS_WAITING_CUSTOMER_def STATUS_TABLE_def STATUS_OTIP_def STATUS_OVERDUE_def
  STATUS_NOT_INTERESTING_def STATUS_IN_TABLE_def U_def

lemmas str_defs = strip_def lower_def lower_cp_def is_space_def

lemmas label_defs =
  status_code_to_label_def normalize_status_code_def STATUS_LABELS_RU_def STATUS_MODEL_def
  STATUS_ALIASES_def

lemma roundtrip_new:
  "status_text_to_code (status_code_to_label STATUS_NEW) = Some STATUS_NEW"
  by (simp add: status_text_to_code_def STATUS_TEXT_MAP_def label_defs str_defs status_defs)

lemma roundtrip_assigned:
  "status_text_to_code (status_code_to_label STATUS_ASSIGNED) = Some STATUS_ASSIGNED"
  by (simp add: status_text_to_code_def STATUS_TEXT_MAP_def label_defs str_defs status_defs)

lemma roundtrip_responded:
  "status_text_to_code (status_code_to_label STATUS_RESPONDED) = Some STATUS_RESPONDED"
  by (simp add: status_text_to_code_def STATUS_TEXT_MAP_def label_defs str_defs status_defs)

lemma roundtrip_resolved:
  "status_text_to_code (status_code_to_label STATUS_RESOLVED) = Some STATUS_RESOLVED"
  by (simp add: status_text_to_code_def STATUS_TEXT_MAP_def label_defs str_defs status_defs)

lemma roundtrip_waiting_customer:
  "status_text_to_code (status_code_to_label STATUS_WAITING_CUSTOMER)
     = Some STATUS_WAITING_CUSTOMER"
  by (simp add: status_text_to_code_def STATUS_TEXT_MAP_def label_defs str_defs status_defs)

lemma roundtrip_table:
  "status_text_to_code (status_code_to_label STATUS_TABLE) = Some STATUS_TABLE"
  by (simp add: status_text_to_code_def STATUS_TEXT_MAP_def label_defs str_defs status_defs)

lemma roundtrip_otip:
  "status_text_to_code (status_code_to_label STATUS_OTIP) = Some STATUS_OTIP"
  by (simp add: status_text_to_code_def STATUS_TEXT_MAP_def label_defs str_defs status_defs)

lemma roundtrip_overdue:
  "status_text_to_code (status_code_to_label STATUS_OVERDUE) = Some STATUS_OVERDUE"
  by (simp add: status_text_to_code_def STATUS_TEXT_MAP_def label_defs str_defs status_defs)

lemma roundtrip_not_interesting:
  "status_text_to_code (status_code_to_label STATUS_NOT_INTERESTING)
     = Some STATUS_NOT_INTERESTING"
  by (simp add: status_text_to_code_def STATUS_TEXT_MAP_def label_defs str_defs status_defs)

text \<open>
  C7. For every status code of the fixed status set (the nine codes of
  \<open>STATUS_MODEL\<close>), translating the code to its display label and the label back
  gives the code again.
\<close>

theorem status_label_roundtrip:
  "list_all (\<lambda>code. status_text_to_code (status_code_to_label code) = Some code)
     (map fst STATUS_MODEL)"
  using roundtrip_new roundtrip_assigned roundtrip_responded roundtrip_resolved
    roundtrip_waiting_customer roundtrip_table roundtrip_otip roundtrip_overdue
    roundtrip_not_interesting
  by (simp add: STATUS_MODEL_def)

text \<open>
  C8. \<open>derive_base_status\<close> looks at its flags in the order uninteresting, requires
  table, has reply (responded), has forward (assigned): a flag earlier in that order
  decides the result whatever the later ones are. With no flag set the result is
  assigned, which is not the code new.
\<close>

theorem derive_base_status_priority:
  "derive_base_status has_forward has_reply requires_table True = STATUS_NOT_INTERESTING
   \<and> derive_base_status has_forward has_reply True False = STATUS_TABLE
   \<and> derive_base_status has_forward True False False = STATUS_RESPONDED
   \<and> derive_base_status True False False False = STATUS_ASSIGNED
   \<and> derive_base_status False False False False = STATUS_ASSIGNED
   \<and> derive_base_status False False False False \<noteq> STATUS_NEW"
  by (simp add: derive_base_status_def status_defs)

end
